theory Spec2Isabelle
  imports Complex_Main "HOL-Library.Char_ord"
begin

section \<open>Data model of schema.go\<close>

text \<open>
  The development embeds \<^verbatim>\<open>schema.go\<close> of go-jsschema: the schema node with its parent
  link and its two caches, reference resolution, the validation engine, and the
  conversion between schema nodes and generic JSON documents.

  Conventions of the embedding.
  \<^item> A Go \<^verbatim>\<open>string\<close> is a sequence of bytes: \<^typ>\<open>string\<close>, whose characters are bytes.
  \<^item> A Go \<^verbatim>\<open>float64\<close> is read as the real number it denotes (no NaN, no infinity, no
    rounding); a Go \<^verbatim>\<open>int\<close> as an integer. No property below depends on overflow.
  \<^item> A Go slice is a list (\<^verbatim>\<open>nil\<close> is the empty list); a Go map is an association list
    with distinct keys, iterated in list order.
  \<^item> A \<^verbatim>\<open>*Schema\<close> is an address into an explicit store of schema nodes.
  \<^item> A function that only reads returns \<open>error option\<close> (\<open>None\<close> for a nil error) or a
    sum (\<open>Inl\<close> the error). A function that may write to the store or may not return
    returns a result: \<open>Ok r st\<close> for a nil error,
    \<open>Fail e st\<close> for an error, \<open>Panic msg\<close> where Go panics, and \<open>OutOfFuel\<close> where the
    recursion bound of the model was reached (the Go call would still be running).
\<close>

subsection \<open>Generic documents and reflected values\<close>

text \<open>
  What \<^verbatim>\<open>interface{}\<close> holds in this package: the generic tree that encoding/json decodes
  (\<open>INil\<close>, \<open>IBool\<close>, \<open>IFloat\<close>, \<open>IString\<close>, \<open>IList\<close>, \<open>IMap\<close>), and a Go
  \<^verbatim>\<open>[]string\<close>, which only hand-built maps contain: the decoder never produces it.
\<close>

datatype iface =
    INil
  | IBool bool
  | IFloat real
  | IString string
  | IList "iface list"
  | IMap "(string \<times> iface) list"
  | IStrings "string list"

datatype Kind =
    reflect_Invalid | reflect_Bool
  | reflect_Int | reflect_Int8 | reflect_Int16 | reflect_Int32 | reflect_Int64
  | reflect_Uint | reflect_Uint8 | reflect_Uint16 | reflect_Uint32 | reflect_Uint64
  | reflect_Uintptr
  | reflect_Float32 | reflect_Float64
  | reflect_Complex64 | reflect_Complex128
  | reflect_Array | reflect_Chan | reflect_Func | reflect_Interface | reflect_Map
  | reflect_Ptr | reflect_Slice | reflect_String | reflect_Struct | reflect_UnsafePointer

datatype int_kind = KInt | KInt8 | KInt16 | KInt32 | KInt64
datatype uint_kind = KUint | KUint8 | KUint16 | KUint32 | KUint64 | KUintptr
datatype float_kind = KFloat32 | KFloat64

text \<open>
  A \<^verbatim>\<open>reflect.Value\<close>. \<open>RInvalid\<close> is the zero Value (\<^verbatim>\<open>zeroval\<close>). A map carries whether
  a string is assignable to its key type (\<^verbatim>\<open>MapIndex\<close> panics otherwise) and its entries;
  a struct carries its fields by JSON name, as go-structinfo exposes them. \<open>ROther k\<close> is
  a value of any other kind.
\<close>

datatype rvalue =
    RInvalid
  | RBool bool
  | RInt int_kind int
  | RUint uint_kind nat
  | RFloat float_kind real
  | RString string
  | RMap bool "(rvalue \<times> rvalue) list"
  | RStruct "(string \<times> rvalue) list"
  | RPtr rvalue
  | RInterface rvalue
  | ROther Kind

fun int_Kind :: "int_kind \<Rightarrow> Kind" where
  "int_Kind KInt = reflect_Int"
| "int_Kind KInt8 = reflect_Int8"
| "int_Kind KInt16 = reflect_Int16"
| "int_Kind KInt32 = reflect_Int32"
| "int_Kind KInt64 = reflect_Int64"

fun uint_Kind :: "uint_kind \<Rightarrow> Kind" where
  "uint_Kind KUint = reflect_Uint"
| "uint_Kind KUint8 = reflect_Uint8"
| "uint_Kind KUint16 = reflect_Uint16"
| "uint_Kind KUint32 = reflect_Uint32"
| "uint_Kind KUint64 = reflect_Uint64"
| "uint_Kind KUintptr = reflect_Uintptr"

fun float_Kind :: "float_kind \<Rightarrow> Kind" where
  "float_Kind KFloat32 = reflect_Float32"
| "float_Kind KFloat64 = reflect_Float64"

fun Kind_of :: "rvalue \<Rightarrow> Kind" where
  "Kind_of RInvalid = reflect_Invalid"
| "Kind_of (RBool _) = reflect_Bool"
| "Kind_of (RInt k _) = int_Kind k"
| "Kind_of (RUint k _) = uint_Kind k"
| "Kind_of (RFloat k _) = float_Kind k"
| "Kind_of (RString _) = reflect_String"
| "Kind_of (RMap _ _) = reflect_Map"
| "Kind_of (RStruct _) = reflect_Struct"
| "Kind_of (RPtr _) = reflect_Ptr"
| "Kind_of (RInterface _) = reflect_Interface"
| "Kind_of (ROther k) = k"

text \<open>\<^verbatim>\<open>rv.Elem()\<close> of a pointer or an interface; the zero Value for nil.\<close>

fun Elem :: "rvalue \<Rightarrow> rvalue" where
  "Elem (RPtr v) = v"
| "Elem (RInterface v) = v"
| "Elem v = v"

text \<open>\<^verbatim>\<open>rv.Float()\<close>: the value of a Float32 or Float64; reflect panics on any other kind.\<close>

fun Float :: "rvalue \<Rightarrow> real option" where
  "Float (RFloat _ f) = Some f"
| "Float _ = None"

subsection \<open>Errors\<close>

datatype error =
    ErrSchemaNotFound
  | ErrInvalidReference string string
  | ErrRequiredField string
  | ErrInvalidType
  | ErrInvalidFieldValue string
  | ErrMinLengthValidationFailed int int
  | ErrMaxLengthValidationFailed int int
  | ErrPatternValidationFailed string string
  | ErrInvalidFormat
  | ErrInvalidHostname
  | ErrInvalidIPv4
  | ErrInvalidIPv6
  | ErrMinimumValidationFailed real real bool
  | ErrMaximumValidationFailed real real bool
  | ErrMultipleOfValidationFailed
  | ErrMinPropertiesValidationFailed int int
  | ErrMaxPropertiesValidationFailed int int
  | ErrAdditionalProperties
  | ErrIntegerValidationFailed
  | ErrNumberValidationFailed
  | ErrNotValidationFailed
  | ErrAnyOfValidationFailed
  | ErrOneOfValidationFailed
  | ErrorString string
  | LibraryError string

text \<open>\<^verbatim>\<open>err.Error()\<close>, as far as the code reads it (the message of an invalid reference).\<close>

fun Error_msg :: "error \<Rightarrow> string" where
  "Error_msg ErrSchemaNotFound = ''schema not found''"
| "Error_msg (ErrorString s) = s"
| "Error_msg (LibraryError s) = s"
| "Error_msg _ = ''error''"

subsection \<open>Scalar keywords\<close>

text \<open>
  Modelled from the spec: the declarations of \<^verbatim>\<open>Number\<close>, \<^verbatim>\<open>Integer\<close>, \<^verbatim>\<open>Bool\<close>,
  \<^verbatim>\<open>PrimitiveType\<close> and \<^verbatim>\<open>Schema\<close> are not in schema.go. The spec describes the scalars as
  tri-state wrappers that tell an absent keyword from a present one, and the code reads
  their fields \<^verbatim>\<open>Val\<close>, \<^verbatim>\<open>Initialized\<close> and \<^verbatim>\<open>Default\<close>; \<^verbatim>\<open>Bool()\<close> is the value when
  the keyword is present and the default otherwise.
\<close>

record 'a Scalar =
  Val :: 'a
  Initialized :: bool

type_synonym Number = "real Scalar"
type_synonym Integer = "int Scalar"

record BoolT = "bool Scalar" +
  Default :: bool

definition Bool :: "BoolT \<Rightarrow> bool" where
  "Bool b = (if Initialized b then Val b else Default b)"

definition Number0 :: Number where
  "Number0 = \<lparr>Val = 0, Initialized = False\<rparr>"

definition Integer0 :: Integer where
  "Integer0 = \<lparr>Val = 0, Initialized = False\<rparr>"

definition Bool0 :: BoolT where
  "Bool0 = \<lparr>Val = False, Initialized = False, Default = False\<rparr>"

datatype PrimitiveType =
    NullType | IntegerType | StringType | ObjectType | ArrayType | BooleanType | NumberType

text \<open>
  Modelled from the spec: \<^verbatim>\<open>primitiveFromString\<close> and the JSON form of a primitive type
  are not in schema.go; the tags are the seven names of the spec's data model.
\<close>

definition primitiveFromString :: "string \<Rightarrow> error + PrimitiveType" where
  "primitiveFromString s =
     (if s = ''null'' then Inr NullType
      else if s = ''integer'' then Inr IntegerType
      else if s = ''string'' then Inr StringType
      else if s = ''object'' then Inr ObjectType
      else if s = ''array'' then Inr ArrayType
      else if s = ''boolean'' then Inr BooleanType
      else if s = ''number'' then Inr NumberType
      else Inl (ErrorString ''unknown primitive type''))"

fun PrimitiveType_String :: "PrimitiveType \<Rightarrow> string" where
  "PrimitiveType_String NullType = ''null''"
| "PrimitiveType_String IntegerType = ''integer''"
| "PrimitiveType_String StringType = ''string''"
| "PrimitiveType_String ObjectType = ''object''"
| "PrimitiveType_String ArrayType = ''array''"
| "PrimitiveType_String BooleanType = ''boolean''"
| "PrimitiveType_String NumberType = ''number''"

subsection \<open>Schema nodes and the store\<close>

type_synonym addr = nat

text \<open>
  What a reference resolves to (the \<^verbatim>\<open>interface{}\<close> of \<^verbatim>\<open>ResolveReference\<close>): a schema node
  or any other value of the document.
\<close>

datatype target = TSchema addr | TValue iface

text \<open>
  A compiled \<^verbatim>\<open>*regexp.Regexp\<close> is kept as its source text (\<^verbatim>\<open>rx.String()\<close>).
  \<^verbatim>\<open>AdditionalProperties\<close> is a pointer to a struct holding a \<^verbatim>\<open>*Schema\<close>: \<open>None\<close> is the
  nil pointer, \<open>Some None\<close> the struct with a nil schema.
  Fields whose Go name is a constant of HOL carry a prime.
\<close>

record Schema =
  id' :: string
  Title :: string
  Description :: string
  Default' :: iface
  Type :: "PrimitiveType list"
  SchemaRef :: string
  Definitions :: "(string \<times> addr) list"
  Reference :: string
  Format :: string
  MultipleOf :: Number
  Minimum :: Number
  Maximum :: Number
  ExclusiveMinimum :: BoolT
  ExclusiveMaximum :: BoolT
  MaxLength :: Integer
  MinLength :: Integer
  Pattern :: "string option"
  AllowAdditionalItems :: bool
  AdditionalItems :: "addr list"
  Items :: "addr list"
  minItems :: Integer
  maxItems :: Integer
  UniqueItems :: BoolT
  MaxProperties :: Integer
  MinProperties :: Integer
  Required :: "string list"
  properties :: "(string \<times> addr) list"
  AdditionalProperties :: "addr option option"
  PatternProperties :: "(string \<times> addr) list"
  Enum' :: "iface list"
  AllOf :: "addr list"
  AnyOf :: "addr list"
  OneOf :: "addr list"
  Not' :: "addr option"
  parent :: "addr option"
  cachedReference :: "(string \<times> target) list"
  schemaByID :: "(string \<times> addr) list"

record store =
  heap :: "addr \<Rightarrow> Schema option"
  next_addr :: addr

datatype 'a res = Ok 'a store | Fail error store | Panic string | OutOfFuel

text \<open>
  The format tags (\<^verbatim>\<open>FormatDateTime\<close> and the others are declared outside schema.go;
  their values are the tags of the spec's data model).
\<close>

definition FormatDateTime :: string where "FormatDateTime = ''date-time''"
definition FormatEmail :: string where "FormatEmail = ''email''"
definition FormatHostname :: string where "FormatHostname = ''hostname''"
definition FormatIPv4 :: string where "FormatIPv4 = ''ipv4''"
definition FormatIPv6 :: string where "FormatIPv6 = ''ipv6''"
definition FormatURI :: string where "FormatURI = ''uri''"

subsection \<open>External collaborators\<close>

text \<open>
  The libraries the code calls are parameters of the model: net/url (a URL is kept as the
  two things the code reads from it, \<^verbatim>\<open>u.String()\<close> and \<^verbatim>\<open>u.Fragment\<close>), regexp, time,
  net/mail, net, and go-jspointer. A library reports an error by its message (\<open>None\<close>
  or \<open>Inr\<close> for a nil error); the code passes it on as \<open>LibraryError\<close>.
\<close>

record URL =
  url_String :: string
  url_Fragment :: string

record ext =
  url_Parse :: "string \<Rightarrow> string + URL"
  url_ParseRef :: "URL \<Rightarrow> string \<Rightarrow> string + URL"
  regexp_Compile :: "string \<Rightarrow> string option"
  regexp_MatchString :: "string \<Rightarrow> string \<Rightarrow> bool"
  time_Parse_RFC3339 :: "string \<Rightarrow> string option"
  mail_ParseAddress :: "string \<Rightarrow> string option"
  net_ParseIP :: "string \<Rightarrow> bool"
  jspointer_New :: "string \<Rightarrow> string option"
  jspointer_Get :: "string \<Rightarrow> addr \<Rightarrow> store \<Rightarrow> string + target"

section \<open>Type matching and the scalar validators\<close>

text \<open>
  \<^verbatim>\<open>matchType\<close>: an empty list accepts; otherwise the loop returns \<^verbatim>\<open>ErrInvalidType\<close> at
  the first entry that differs from \<open>t\<close>.
\<close>

fun matchType_loop :: "PrimitiveType \<Rightarrow> PrimitiveType list \<Rightarrow> error option" where
  "matchType_loop t [] = None"
| "matchType_loop t (tp # list) =
     (if tp = t then matchType_loop t list else Some ErrInvalidType)"

definition matchType :: "PrimitiveType \<Rightarrow> PrimitiveType list \<Rightarrow> error option" where
  "matchType t list = (if length list = 0 then None else matchType_loop t list)"

text \<open>\<^verbatim>\<open>isDomainName\<close>, byte by byte, with the loop's variables as arguments (\<open>lst\<close> is \<^verbatim>\<open>last\<close>).\<close>

definition between :: "char \<Rightarrow> char \<Rightarrow> char \<Rightarrow> bool" where
  "between lo c hi = (lo \<le> c \<and> c \<le> hi)"

definition is_letter :: "char \<Rightarrow> bool" where
  "is_letter c =
     (between (CHR ''a'') c (CHR ''z'') \<or> between (CHR ''A'') c (CHR ''Z'') \<or> c = CHR ''_'')"

definition is_digit :: "char \<Rightarrow> bool" where
  "is_digit c = between (CHR ''0'') c (CHR ''9'')"

fun isDomainName_loop :: "string \<Rightarrow> char \<Rightarrow> bool \<Rightarrow> nat \<Rightarrow> bool" where
  "isDomainName_loop [] lst ok partlen =
     (if lst = CHR ''-'' \<or> partlen > 63 then False else ok)"
| "isDomainName_loop (c # s) lst ok partlen =
     (if is_letter c then isDomainName_loop s c True (partlen + 1)
      else if is_digit c then isDomainName_loop s c ok (partlen + 1)
      else if c = CHR ''-'' then
        (if lst = CHR ''.'' then False else isDomainName_loop s c ok (partlen + 1))
      else if c = CHR ''.'' then
        (if lst = CHR ''.'' \<or> lst = CHR ''-'' then False
         else if partlen > 63 \<or> partlen = 0 then False
         else isDomainName_loop s c ok 0)
      else False)"

definition isDomainName :: "string \<Rightarrow> bool" where
  "isDomainName s =
     (if length s = 0 then False
      else if length s > 255 then False
      else isDomainName_loop s (CHR ''.'') False 0)"

text \<open>
  \<^verbatim>\<open>validateString\<close>. The caller has checked that the value is of kind String, so the
  model takes the string; \<^verbatim>\<open>rv.Len()\<close> of a string value is its number of bytes. The
  loops of the ipv4 and ipv6 formats range over runes; a rune of a byte outside ASCII is
  neither a digit nor the separator, so the model tests the bytes. Where \<^verbatim>\<open>net.ParseIP\<close>
  returns nil the code assigns \<^verbatim>\<open>err\<close> and leaves the switch, and the function's last
  statement \<^verbatim>\<open>return nil\<close> overwrites it.
\<close>

definition validateFormat :: "ext \<Rightarrow> string \<Rightarrow> Schema \<Rightarrow> error option" where
  "validateFormat x s def =
     (if Format def = FormatDateTime then map_option LibraryError (time_Parse_RFC3339 x s)
      else if Format def = FormatEmail then map_option LibraryError (mail_ParseAddress x s)
      else if Format def = FormatHostname then
        (if \<not> isDomainName s then Some ErrInvalidHostname else None)
      else if Format def = FormatIPv4 then
        (if list_ex (\<lambda>r. \<not> (r = CHR 0x2E \<or> CHR 0x30 \<le> r \<and> r \<le> CHR 0x39)) s
         then Some ErrInvalidIPv4 else None)
      else if Format def = FormatIPv6 then
        (if list_ex (\<lambda>r. \<not> (r = CHR 0x3A \<or> CHR 0x30 \<le> r \<and> r \<le> CHR 0x39)) s
         then Some ErrInvalidIPv6 else None)
      else if Format def = FormatURI then
        (case url_Parse x s of Inl e \<Rightarrow> Some (LibraryError e) | Inr _ \<Rightarrow> None)
      else Some ErrInvalidFormat)"

definition validateString :: "ext \<Rightarrow> string \<Rightarrow> Schema \<Rightarrow> error option" where
  "validateString x s def =
     (if Initialized (MinLength def) \<and> int (length s) < Val (MinLength def)
      then Some (ErrMinLengthValidationFailed (int (length s)) (Val (MinLength def)))
      else if Initialized (MaxLength def) \<and> int (length s) > Val (MaxLength def)
      then Some (ErrMaxLengthValidationFailed (int (length s)) (Val (MaxLength def)))
      else if Pattern def \<noteq> None \<and> \<not> regexp_MatchString x (the (Pattern def)) s
      then Some (ErrPatternValidationFailed s (the (Pattern def)))
      else if Format def \<noteq> [] then validateFormat x s def
      else None)"

text \<open>
  \<^verbatim>\<open>validateNumber\<close>. \<open>to_float64\<close> is the first switch: the value as a float64, and the
  zero value of \<^verbatim>\<open>f\<close> for a value of another kind. \<^verbatim>\<open>math.Mod(x, y)\<close> is
  \<open>x - y * trunc (x / y)\<close>; the three arms of the second switch compute the same.
\<close>

fun to_float64 :: "rvalue \<Rightarrow> real" where
  "to_float64 (RInt _ i) = of_int i"
| "to_float64 (RUint _ n) = of_nat n"
| "to_float64 (RFloat _ f) = f"
| "to_float64 _ = 0"

definition math_Mod :: "real \<Rightarrow> real \<Rightarrow> real" where
  "math_Mod x y =
     x - y * of_int (if 0 \<le> x / y then \<lfloor>x / y\<rfloor> else \<lceil>x / y\<rceil>)"

fun is_numeric :: "rvalue \<Rightarrow> bool" where
  "is_numeric (RInt _ _) = True"
| "is_numeric (RUint _ _) = True"
| "is_numeric (RFloat _ _) = True"
| "is_numeric _ = False"

definition validateMinimum :: "real \<Rightarrow> Schema \<Rightarrow> error option" where
  "validateMinimum f def =
     (if Initialized (Minimum def) then
        (if Bool (ExclusiveMinimum def) then
           (if f < Val (Minimum def)
            then Some (ErrMinimumValidationFailed f (Val (Minimum def)) True) else None)
         else
           (if f \<le> Val (Minimum def)
            then Some (ErrMinimumValidationFailed f (Val (Minimum def)) False) else None))
      else None)"

definition validateMaximum :: "real \<Rightarrow> Schema \<Rightarrow> error option" where
  "validateMaximum f def =
     (if Initialized (Maximum def) then
        (if Bool (ExclusiveMaximum def) then
           (if f > Val (Maximum def)
            then Some (ErrMaximumValidationFailed f (Val (Maximum def)) True) else None)
         else
           (if f \<ge> Val (Maximum def)
            then Some (ErrMaximumValidationFailed f (Val (Maximum def)) False) else None))
      else None)"

definition validateMultipleOf :: "rvalue \<Rightarrow> real \<Rightarrow> Schema \<Rightarrow> error option" where
  "validateMultipleOf rv f def =
     (if Val (MultipleOf def) \<noteq> 0 then
        (let md = (if is_numeric rv then math_Mod f (Val (MultipleOf def)) else 0)
         in if md \<noteq> 0 then Some ErrMultipleOfValidationFailed else None)
      else None)"

definition validateNumber :: "rvalue \<Rightarrow> Schema \<Rightarrow> error option" where
  "validateNumber rv def =
     (let f = to_float64 rv in
      case validateMinimum f def of
        Some e \<Rightarrow> Some e
      | None \<Rightarrow>
          (case validateMaximum f def of
             Some e \<Rightarrow> Some e
           | None \<Rightarrow> validateMultipleOf rv f def))"

section \<open>Construction of nodes\<close>

text \<open>
  \<^verbatim>\<open>New\<close> allocates a node whose fields are zero and whose two caches are fresh empty
  maps. \<open>Schema0\<close> is that node.
\<close>

definition Schema0 :: Schema where
  "Schema0 =
     \<lparr>id' = [], Title = [], Description = [], Default' = INil, Type = [],
      SchemaRef = [], Definitions = [], Reference = [], Format = [],
      MultipleOf = Number0, Minimum = Number0, Maximum = Number0,
      ExclusiveMinimum = Bool0, ExclusiveMaximum = Bool0,
      MaxLength = Integer0, MinLength = Integer0, Pattern = None,
      AllowAdditionalItems = False, AdditionalItems = [], Items = [],
      minItems = Integer0, maxItems = Integer0, UniqueItems = Bool0,
      MaxProperties = Integer0, MinProperties = Integer0, Required = [],
      properties = [], AdditionalProperties = None, PatternProperties = [],
      Enum' = [], AllOf = [], AnyOf = [], OneOf = [], Not' = None, parent = None,
      cachedReference = [], schemaByID = []\<rparr>"

definition New :: "store \<Rightarrow> addr \<times> store" where
  "New st =
     (next_addr st,
      st\<lparr>heap := (heap st)(next_addr st := Some Schema0), next_addr := Suc (next_addr st)\<rparr>)"

section \<open>Results and the store\<close>

text \<open>\<open>and_then r f\<close> continues with \<open>f\<close> after a nil error and returns early otherwise.\<close>

definition and_then :: "'a res \<Rightarrow> ('a \<Rightarrow> store \<Rightarrow> 'b res) \<Rightarrow> 'b res" where
  "and_then r f =
     (case r of
        Ok a st \<Rightarrow> f a st
      | Fail e st \<Rightarrow> Fail e st
      | Panic m \<Rightarrow> Panic m
      | OutOfFuel \<Rightarrow> OutOfFuel)"

text \<open>
  Reading the node behind a pointer; an address that holds no node stands for a nil
  pointer, and reading through it panics.
\<close>

definition deref :: "addr \<Rightarrow> store \<Rightarrow> Schema res" where
  "deref s st =
     (case heap st s of
        None \<Rightarrow> Panic ''nil pointer dereference''
      | Some node \<Rightarrow> Ok node st)"

definition update_node :: "addr \<Rightarrow> (Schema \<Rightarrow> Schema) \<Rightarrow> store \<Rightarrow> store" where
  "update_node s f st = st\<lparr>heap := (heap st)(s := map_option f (heap st s))\<rparr>"

text \<open>\<^verbatim>\<open>m[k] = v\<close> on a Go map: the entry of \<open>k\<close> is replaced, or added.\<close>

fun map_put :: "'k \<Rightarrow> 'v \<Rightarrow> ('k \<times> 'v) list \<Rightarrow> ('k \<times> 'v) list" where
  "map_put k v [] = [(k, v)]"
| "map_put k v (e # m) = (if fst e = k then (k, v) # m else e # map_put k v m)"

section \<open>Scope, root and reference resolution\<close>

text \<open>
  \<^verbatim>\<open>Root\<close> and \<^verbatim>\<open>Scope\<close> follow parent links, which nothing in the types keeps from
  forming a cycle: the first argument bounds the number of calls.
\<close>

fun Root :: "nat \<Rightarrow> addr \<Rightarrow> store \<Rightarrow> addr res" where
  "Root 0 s st = OutOfFuel"
| "Root (Suc n) s st =
     and_then (deref s st) (\<lambda>node st.
       case parent node of
         None \<Rightarrow> Ok s st
       | Some p \<Rightarrow> Root n p st)"

fun Scope :: "nat \<Rightarrow> addr \<Rightarrow> store \<Rightarrow> string res" where
  "Scope 0 s st = OutOfFuel"
| "Scope (Suc n) s st =
     and_then (deref s st) (\<lambda>node st.
       if id' node \<noteq> [] \<or> parent node = None then Ok (id' node) st
       else Scope n (the (parent node)) st)"

text \<open>\<^verbatim>\<open>BaseURL\<close>: the scope parsed as a URL, and the empty URL where it does not parse.\<close>

definition BaseURL :: "ext \<Rightarrow> nat \<Rightarrow> addr \<Rightarrow> store \<Rightarrow> URL res" where
  "BaseURL x n s st =
     and_then (Scope n s st) (\<lambda>scope st.
       case url_Parse x scope of
         Inl _ \<Rightarrow> Ok \<lparr>url_String = [], url_Fragment = []\<rparr> st
       | Inr u \<Rightarrow> Ok u st)"

definition findSchemaByID :: "addr \<Rightarrow> string \<Rightarrow> store \<Rightarrow> addr res" where
  "findSchemaByID s i st =
     and_then (deref s st) (\<lambda>node st.
       if id' node = i then Ok s st else Fail ErrSchemaNotFound st)"

definition ResolveID :: "nat \<Rightarrow> addr \<Rightarrow> string \<Rightarrow> store \<Rightarrow> addr res" where
  "ResolveID n s i st =
     and_then (Root n s st) (\<lambda>root st.
     and_then (deref root st) (\<lambda>rnode st.
       case map_of (schemaByID rnode) i of
         Some r \<Rightarrow> Ok r st
       | None \<Rightarrow>
           and_then (findSchemaByID root i st) (\<lambda>r st.
             Ok r (update_node root (\<lambda>nd. nd\<lparr>schemaByID := map_put i r (schemaByID nd)\<rparr>) st))))"

definition ResolveURL :: "ext \<Rightarrow> nat \<Rightarrow> addr \<Rightarrow> string \<Rightarrow> store \<Rightarrow> URL res" where
  "ResolveURL x n s v st =
     and_then (BaseURL x n s st) (\<lambda>base st.
       case url_ParseRef x base v of
         Inl e \<Rightarrow> Fail (LibraryError e) st
       | Inr u \<Rightarrow> Ok u st)"

text \<open>
  \<^verbatim>\<open>ResolveReference\<close>. The cache that is read is the root's
  (\<^verbatim>\<open>root.cachedReference\<close>); the cache that is written is the receiver's
  (\<^verbatim>\<open>s.cachedReference\<close>).
\<close>

definition ResolveReference :: "ext \<Rightarrow> nat \<Rightarrow> addr \<Rightarrow> string \<Rightarrow> store \<Rightarrow> target res" where
  "ResolveReference x n s v st =
     and_then (ResolveURL x n s v st) (\<lambda>u st.
     and_then (Root n s st) (\<lambda>root st.
     and_then (deref root st) (\<lambda>rnode st.
       case map_of (cachedReference rnode) (url_String u) of
         Some r \<Rightarrow> Ok r st
       | None \<Rightarrow>
           (case jspointer_New x (url_Fragment u) of
              Some e \<Rightarrow> Fail (LibraryError e) st
            | None \<Rightarrow>
                and_then (Scope n s st) (\<lambda>scope st.
                and_then (ResolveID n s scope st) (\<lambda>t st.
                  case jspointer_Get x (url_Fragment u) t st of
                    Inl e \<Rightarrow> Fail (LibraryError e) st
                  | Inr r \<Rightarrow>
                      Ok r (update_node s
                        (\<lambda>nd. nd\<lparr>cachedReference :=
                                  map_put (url_String u) r (cachedReference nd)\<rparr>) st)))))))"

definition resolveCurrentSchemaReference :: "ext \<Rightarrow> nat \<Rightarrow> addr \<Rightarrow> store \<Rightarrow> addr res" where
  "resolveCurrentSchemaReference x n s st =
     and_then (deref s st) (\<lambda>node st.
       if Reference node = [] then Ok s st
       else
         (case ResolveReference x n s (Reference node) st of
            Ok (TSchema r) st \<Rightarrow> Ok r st
          | Ok (TValue _) st \<Rightarrow>
              Fail (ErrInvalidReference (Reference node) ''returned element is not a Schema'') st
          | Fail e st \<Rightarrow> Fail (ErrInvalidReference (Reference node) (Error_msg e)) st
          | Panic m \<Rightarrow> Panic m
          | OutOfFuel \<Rightarrow> OutOfFuel))"

section \<open>The validation engine\<close>

text \<open>
  \<^verbatim>\<open>getPropNames\<close>: the keys of a map, each of which must be of kind String, or the JSON
  field names of a struct. go-structinfo is a parameter of the value: the struct carries
  the names it exposes.
\<close>

fun map_key_names :: "(rvalue \<times> rvalue) list \<Rightarrow> error + string list" where
  "map_key_names [] = Inr []"
| "map_key_names ((k, v) # kvs) =
     (case k of
        RString name \<Rightarrow>
          (case map_key_names kvs of Inl e \<Rightarrow> Inl e | Inr names \<Rightarrow> Inr (name # names))
      | _ \<Rightarrow> Inl (ErrorString ''panic: can only handle maps with string keys''))"

fun getPropNames :: "rvalue \<Rightarrow> error + string list" where
  "getPropNames (RMap _ kvs) = map_key_names kvs"
| "getPropNames (RStruct flds) = Inr (map fst flds)"
| "getPropNames _ = Inl (ErrorString ''cannot get property names from this value'')"

text \<open>
  \<^verbatim>\<open>getProp\<close>: \<^verbatim>\<open>MapIndex\<close> panics when a string is not assignable to the key type of the
  map; a missing key or field gives the zero Value.
\<close>

fun getProp :: "rvalue \<Rightarrow> string \<Rightarrow> string + rvalue" where
  "getProp (RMap string_keys kvs) pname =
     (if string_keys then
        (case map_of kvs (RString pname) of None \<Rightarrow> Inr RInvalid | Some v \<Rightarrow> Inr v)
      else Inl ''reflect.Value.MapIndex: value of type string is not assignable'')"
| "getProp (RStruct flds) pname =
     (case map_of flds pname of None \<Rightarrow> Inr RInvalid | Some v \<Rightarrow> Inr v)"
| "getProp _ pname = Inr RInvalid"

definition isPropRequired :: "Schema \<Rightarrow> string \<Rightarrow> bool" where
  "isPropRequired s pname = list_ex (\<lambda>name. name = pname) (Required s)"

text \<open>
  The functions below call \<^verbatim>\<open>validate\<close> recursively; they take it as the argument \<open>V\<close>,
  and \<open>validate\<close> ties the knot at the end of the section. \<open>n\<close> bounds the parent chains
  that reference resolution follows.
\<close>

type_synonym validator = "rvalue \<Rightarrow> addr \<Rightarrow> store \<Rightarrow> unit res"

definition validateProp ::
  "ext \<Rightarrow> nat \<Rightarrow> validator \<Rightarrow> rvalue \<Rightarrow> string \<Rightarrow> addr \<Rightarrow> bool \<Rightarrow> store \<Rightarrow> unit res" where
  "validateProp x n V c pname pdef required st =
     and_then (resolveCurrentSchemaReference x n pdef st) (\<lambda>def st.
       case getProp c pname of
         Inl m \<Rightarrow> Panic m
       | Inr pv0 \<Rightarrow>
           (let pv = (if Kind_of pv0 = reflect_Interface then Elem pv0 else pv0) in
            if pv = RInvalid then
              (if required then Fail (ErrRequiredField pname) st else Ok () st)
            else V pv def st))"

text \<open>The count of the properties that are present, for \<^verbatim>\<open>minProperties\<close> and \<^verbatim>\<open>maxProperties\<close>.\<close>

fun count_props :: "rvalue \<Rightarrow> string list \<Rightarrow> string + int" where
  "count_props rv [] = Inr 0"
| "count_props rv (name # names) =
     (case getProp rv name of
        Inl m \<Rightarrow> Inl m
      | Inr pv \<Rightarrow>
          (case count_props rv names of
             Inl m \<Rightarrow> Inl m
           | Inr count \<Rightarrow> Inr (if pv \<noteq> RInvalid then count + 1 else count)))"

definition validatePropertyCount :: "rvalue \<Rightarrow> string list \<Rightarrow> Schema \<Rightarrow> store \<Rightarrow> unit res" where
  "validatePropertyCount rv names def st =
     (if Initialized (MinProperties def) \<or> Initialized (MaxProperties def) then
        (case count_props rv names of
           Inl m \<Rightarrow> Panic m
         | Inr count \<Rightarrow>
             if Initialized (MinProperties def) \<and> Val (MinProperties def) > count
             then Fail (ErrMinPropertiesValidationFailed count (Val (MinProperties def))) st
             else if Initialized (MaxProperties def) \<and> Val (MaxProperties def) < count
             then Fail (ErrMaxPropertiesValidationFailed count (Val (MaxProperties def))) st
             else Ok () st)
      else Ok () st)"

text \<open>
  The loop over \<^verbatim>\<open>def.properties\<close>: each name is deleted from \<^verbatim>\<open>namesMap\<close> (kept as the
  list of the names that are left) and validated; the result is the names left.
\<close>

fun validateProperties ::
  "ext \<Rightarrow> nat \<Rightarrow> validator \<Rightarrow> rvalue \<Rightarrow> Schema \<Rightarrow> (string \<times> addr) list \<Rightarrow> string list
     \<Rightarrow> store \<Rightarrow> string list res" where
  "validateProperties x n V rv def [] namesMap st = Ok namesMap st"
| "validateProperties x n V rv def ((pname, pdef) # props) namesMap st =
     and_then (validateProp x n V rv pname pdef (isPropRequired def pname) st) (\<lambda>_ st.
       validateProperties x n V rv def props (removeAll pname namesMap) st)"

text \<open>
  The loops over \<^verbatim>\<open>namesMap\<close> and \<^verbatim>\<open>def.PatternProperties\<close>: the inner loop validates a
  name against every pattern that matches it, and tells whether one did.
\<close>

fun validatePatterns ::
  "ext \<Rightarrow> nat \<Rightarrow> validator \<Rightarrow> rvalue \<Rightarrow> Schema \<Rightarrow> string \<Rightarrow> (string \<times> addr) list
     \<Rightarrow> store \<Rightarrow> bool res" where
  "validatePatterns x n V rv def pname [] st = Ok False st"
| "validatePatterns x n V rv def pname ((pat, pdef) # pp) st =
     (if regexp_MatchString x pat pname then
        and_then (validateProp x n V rv pname pdef (isPropRequired def pname) st) (\<lambda>_ st.
        and_then (validatePatterns x n V rv def pname pp st) (\<lambda>_ st. Ok True st))
      else validatePatterns x n V rv def pname pp st)"

fun validatePatternProperties ::
  "ext \<Rightarrow> nat \<Rightarrow> validator \<Rightarrow> rvalue \<Rightarrow> Schema \<Rightarrow> string list \<Rightarrow> store \<Rightarrow> string list res" where
  "validatePatternProperties x n V rv def [] st = Ok [] st"
| "validatePatternProperties x n V rv def (pname # names) st =
     and_then (validatePatterns x n V rv def pname (PatternProperties def) st) (\<lambda>matched st.
     and_then (validatePatternProperties x n V rv def names st) (\<lambda>left st.
       Ok (if matched then left else pname # left) st))"

definition validateObject ::
  "ext \<Rightarrow> nat \<Rightarrow> validator \<Rightarrow> rvalue \<Rightarrow> Schema \<Rightarrow> store \<Rightarrow> unit res" where
  "validateObject x n V rv def st =
     (case getPropNames rv of
        Inl e \<Rightarrow> Fail e st
      | Inr names \<Rightarrow>
          and_then (validatePropertyCount rv names def st) (\<lambda>_ st.
          and_then (validateProperties x n V rv def (properties def) (remdups names) st)
            (\<lambda>namesMap st.
          and_then
            (if length (PatternProperties def) > 0
             then validatePatternProperties x n V rv def namesMap st
             else Ok namesMap st) (\<lambda>namesMap st.
            if AdditionalProperties def = None \<and> length namesMap > 0
            then Fail ErrAdditionalProperties st
            else Ok () st))))"

text \<open>
  The four arms of the combinator switch. \<^verbatim>\<open>not\<close> fails when the sub-schema accepts;
  \<^verbatim>\<open>allOf\<close> returns the first error; \<^verbatim>\<open>anyOf\<close> stops at the first member that accepts;
  \<^verbatim>\<open>oneOf\<close> counts the members that accept.
\<close>

definition validateNot :: "validator \<Rightarrow> rvalue \<Rightarrow> addr \<Rightarrow> store \<Rightarrow> unit res" where
  "validateNot V rv s1 st =
     (case V rv s1 st of
        Ok _ st \<Rightarrow> Fail ErrNotValidationFailed st
      | Fail _ st \<Rightarrow> Ok () st
      | Panic m \<Rightarrow> Panic m
      | OutOfFuel \<Rightarrow> OutOfFuel)"

fun validateAllOf :: "validator \<Rightarrow> rvalue \<Rightarrow> addr list \<Rightarrow> store \<Rightarrow> unit res" where
  "validateAllOf V rv [] st = Ok () st"
| "validateAllOf V rv (s1 # l) st = and_then (V rv s1 st) (\<lambda>_ st. validateAllOf V rv l st)"

fun anyOf_loop :: "validator \<Rightarrow> rvalue \<Rightarrow> addr list \<Rightarrow> store \<Rightarrow> bool res" where
  "anyOf_loop V rv [] st = Ok False st"
| "anyOf_loop V rv (s1 # l) st =
     (case V rv s1 st of
        Ok _ st \<Rightarrow> Ok True st
      | Fail _ st \<Rightarrow> anyOf_loop V rv l st
      | Panic m \<Rightarrow> Panic m
      | OutOfFuel \<Rightarrow> OutOfFuel)"

definition validateAnyOf :: "validator \<Rightarrow> rvalue \<Rightarrow> addr list \<Rightarrow> store \<Rightarrow> unit res" where
  "validateAnyOf V rv l st =
     and_then (anyOf_loop V rv l st) (\<lambda>ok st.
       if \<not> ok then Fail ErrAnyOfValidationFailed st else Ok () st)"

fun oneOf_loop :: "validator \<Rightarrow> rvalue \<Rightarrow> addr list \<Rightarrow> nat \<Rightarrow> store \<Rightarrow> nat res" where
  "oneOf_loop V rv [] count st = Ok count st"
| "oneOf_loop V rv (s1 # l) count st =
     (case V rv s1 st of
        Ok _ st \<Rightarrow> oneOf_loop V rv l (count + 1) st
      | Fail _ st \<Rightarrow> oneOf_loop V rv l count st
      | Panic m \<Rightarrow> Panic m
      | OutOfFuel \<Rightarrow> OutOfFuel)"

definition validateOneOf :: "validator \<Rightarrow> rvalue \<Rightarrow> addr list \<Rightarrow> store \<Rightarrow> unit res" where
  "validateOneOf V rv l st =
     and_then (oneOf_loop V rv l 0 st) (\<lambda>count st.
       if count \<noteq> 1 then Fail ErrOneOfValidationFailed st else Ok () st)"

text \<open>
  The first switch of \<^verbatim>\<open>validate\<close>. A Go \<^verbatim>\<open>switch\<close> without a tag runs the first case
  whose condition holds, and only that one.
\<close>

definition validateCombinators :: "validator \<Rightarrow> rvalue \<Rightarrow> Schema \<Rightarrow> store \<Rightarrow> unit res" where
  "validateCombinators V rv def st =
     (if Not' def \<noteq> None then validateNot V rv (the (Not' def)) st
      else if length (AllOf def) > 0 then validateAllOf V rv (AllOf def) st
      else if length (AnyOf def) > 0 then validateAnyOf V rv (AnyOf def) st
      else if length (OneOf def) > 0 then validateOneOf V rv (OneOf def) st
      else Ok () st)"

text \<open>
  The numeric arm of the second switch. Where the type list admits \<^verbatim>\<open>integer\<close> the code
  calls \<^verbatim>\<open>rv.Float()\<close> on the value, whatever its kind. \<^verbatim>\<open>typeOK\<close> is true on both ways
  to the label \<^verbatim>\<open>TYPECHECK_DONE\<close>, so the branch under it that reports
  \<^verbatim>\<open>ErrIntegerValidationFailed\<close> or \<^verbatim>\<open>ErrNumberValidationFailed\<close> is never taken.
\<close>

definition validateNumeric :: "rvalue \<Rightarrow> Schema \<Rightarrow> store \<Rightarrow> unit res" where
  "validateNumeric rv def st =
     (let checkNumber = (case validateNumber rv def of Some e \<Rightarrow> Fail e st | None \<Rightarrow> Ok () st);
          asNumber =
            (case matchType NumberType (Type def) of
               Some e \<Rightarrow> Fail e st
             | None \<Rightarrow> checkNumber)
      in if matchType IntegerType (Type def) = None then
           (case Float rv of
              None \<Rightarrow> Panic ''reflect: call of reflect.Value.Float on non-float Value''
            | Some f \<Rightarrow> if of_int \<lfloor>f\<rfloor> = f then checkNumber else asNumber)
         else asNumber)"

text \<open>The second switch of \<^verbatim>\<open>validate\<close>, on the kind of the value.\<close>

definition validateKind ::
  "ext \<Rightarrow> nat \<Rightarrow> validator \<Rightarrow> rvalue \<Rightarrow> Schema \<Rightarrow> store \<Rightarrow> unit res" where
  "validateKind x n V rv def st =
     (case rv of
        RMap _ _ \<Rightarrow>
          (case matchType ObjectType (Type def) of
             Some e \<Rightarrow> Fail e st
           | None \<Rightarrow> validateObject x n V rv def st)
      | RStruct _ \<Rightarrow>
          (case matchType ObjectType (Type def) of
             Some e \<Rightarrow> Fail e st
           | None \<Rightarrow> validateObject x n V rv def st)
      | RString s \<Rightarrow>
          (case matchType StringType (Type def) of
             Some e \<Rightarrow> Fail e st
           | None \<Rightarrow> (case validateString x s def of Some e \<Rightarrow> Fail e st | None \<Rightarrow> Ok () st))
      | RInt _ _ \<Rightarrow> validateNumeric rv def st
      | RUint _ _ \<Rightarrow> validateNumeric rv def st
      | RFloat _ _ \<Rightarrow> validateNumeric rv def st
      | _ \<Rightarrow> Fail ErrInvalidType st)"

text \<open>
  \<^verbatim>\<open>validate\<close>: dereference, the combinator switch, the kind switch. The keyword fields
  are read from the node once: validation writes to the two caches only. The first
  argument bounds the depth of the recursion, which a reference cycle makes endless.
\<close>

fun validate :: "ext \<Rightarrow> nat \<Rightarrow> rvalue \<Rightarrow> addr \<Rightarrow> store \<Rightarrow> unit res" where
  "validate x 0 rv s st = OutOfFuel"
| "validate x (Suc n) rv s st =
     and_then (resolveCurrentSchemaReference x n s st) (\<lambda>d st.
     and_then (deref d st) (\<lambda>def st.
     and_then (validateCombinators (validate x n) rv def st) (\<lambda>_ st.
       validateKind x n (validate x n) rv def st)))"

text \<open>
  \<^verbatim>\<open>Validate\<close>: the receiver is a copy of the node that shares its maps and its parent
  link with the original, so the model passes the node's address.
\<close>

definition Validate :: "ext \<Rightarrow> nat \<Rightarrow> rvalue \<Rightarrow> addr \<Rightarrow> store \<Rightarrow> unit res" where
  "Validate x n v s st =
     (let rv = (if Kind_of v = reflect_Ptr then Elem v else v)
      in validate x n rv s st)"

section \<open>From a generic document to schema nodes\<close>

text \<open>
  \<^verbatim>\<open>applyParentSchema\<close>: every node held by \<^verbatim>\<open>Definitions\<close>, \<^verbatim>\<open>AdditionalItems\<close>, \<^verbatim>\<open>Items\<close>,
  \<^verbatim>\<open>properties\<close>, \<^verbatim>\<open>AllOf\<close>, \<^verbatim>\<open>AnyOf\<close>, \<^verbatim>\<open>OneOf\<close> and \<^verbatim>\<open>Not\<close>, in the order of the
  eight loops of the code, gets the receiver as its parent and is visited in turn.
\<close>

definition setParent :: "addr \<Rightarrow> addr \<Rightarrow> store \<Rightarrow> store" where
  "setParent s v st = update_node s (\<lambda>nd. nd\<lparr>parent := Some v\<rparr>) st"

definition linked_components :: "Schema \<Rightarrow> addr list" where
  "linked_components nd =
     map snd (Definitions nd) @ AdditionalItems nd @ Items nd @ map snd (properties nd)
     @ AllOf nd @ AnyOf nd @ OneOf nd @ (case Not' nd of None \<Rightarrow> [] | Some v \<Rightarrow> [v])"

fun applyParent_loop ::
  "(addr \<Rightarrow> store \<Rightarrow> unit res) \<Rightarrow> addr \<Rightarrow> addr list \<Rightarrow> store \<Rightarrow> unit res" where
  "applyParent_loop A s [] st = Ok () st"
| "applyParent_loop A s (v # vs) st =
     and_then (A v (setParent v s st)) (\<lambda>_ st. applyParent_loop A s vs st)"

fun applyParentSchema :: "nat \<Rightarrow> addr \<Rightarrow> store \<Rightarrow> unit res" where
  "applyParentSchema 0 s st = OutOfFuel"
| "applyParentSchema (Suc n) s st =
     and_then (deref s st) (\<lambda>nd st.
       applyParent_loop (applyParentSchema n) s (linked_components nd) st)"

text \<open>
  The scalar extractors. Those that write through a pointer (\<^verbatim>\<open>extractNumber\<close>,
  \<^verbatim>\<open>extractInt\<close>, \<^verbatim>\<open>extractBool\<close>) take the old value and return the error with the new
  value. \<^verbatim>\<open>int(f)\<close> truncates towards zero.
\<close>

type_synonym document = "(string \<times> iface) list"

definition extractNumber :: "Number \<Rightarrow> document \<Rightarrow> string \<Rightarrow> error option \<times> Number" where
  "extractNumber n m s =
     (case map_of m s of
        None \<Rightarrow> (None, n)
      | Some (IFloat f) \<Rightarrow> (None, \<lparr>Val = f, Initialized = True\<rparr>)
      | Some _ \<Rightarrow> (Some (ErrInvalidFieldValue s), n))"

definition float64_to_int :: "real \<Rightarrow> int" where
  "float64_to_int f = (if 0 \<le> f then \<lfloor>f\<rfloor> else \<lceil>f\<rceil>)"

definition extractInt :: "Integer \<Rightarrow> document \<Rightarrow> string \<Rightarrow> error option \<times> Integer" where
  "extractInt n m s =
     (case map_of m s of
        None \<Rightarrow> (None, n)
      | Some (IFloat f) \<Rightarrow> (None, \<lparr>Val = float64_to_int f, Initialized = True\<rparr>)
      | Some _ \<Rightarrow> (Some (ErrInvalidFieldValue s), n))"

definition extractBool :: "BoolT \<Rightarrow> document \<Rightarrow> string \<Rightarrow> bool \<Rightarrow> error option \<times> BoolT" where
  "extractBool b m s dflt =
     (case map_of m s of
        None \<Rightarrow> (None, b\<lparr>Default := dflt\<rparr>)
      | Some (IBool v) \<Rightarrow> (None, \<lparr>Val = v, Initialized = True, Default = dflt\<rparr>)
      | Some _ \<Rightarrow> (Some (ErrInvalidFieldValue s), b\<lparr>Default := dflt\<rparr>))"

definition extractString :: "document \<Rightarrow> string \<Rightarrow> error + string" where
  "extractString m s =
     (case map_of m s of
        None \<Rightarrow> Inr []
      | Some (IString v) \<Rightarrow> Inr v
      | Some _ \<Rightarrow> Inl (ErrInvalidFieldValue s))"

fun string_elements :: "string \<Rightarrow> iface list \<Rightarrow> error + string list" where
  "string_elements s [] = Inr []"
| "string_elements s (e # l) =
     (case e of
        IString v \<Rightarrow> (case string_elements s l of Inl err \<Rightarrow> Inl err | Inr r \<Rightarrow> Inr (v # r))
      | _ \<Rightarrow> Inl (ErrInvalidFieldValue s))"

definition extractStringList :: "document \<Rightarrow> string \<Rightarrow> error + string list" where
  "extractStringList m s =
     (case map_of m s of
        None \<Rightarrow> Inr []
      | Some (IString v) \<Rightarrow> Inr [v]
      | Some (IList l) \<Rightarrow> string_elements s l
      | Some _ \<Rightarrow> Inl (ErrInvalidFieldValue s))"

definition extractFormat :: "document \<Rightarrow> string \<Rightarrow> error + string" where
  "extractFormat m s = extractString m s"

definition extractJSPointer :: "document \<Rightarrow> string \<Rightarrow> error + string" where
  "extractJSPointer m s = extractString m s"

definition extractInterface :: "document \<Rightarrow> string \<Rightarrow> error + iface" where
  "extractInterface m s = (case map_of m s of None \<Rightarrow> Inr INil | Some v \<Rightarrow> Inr v)"

definition extractInterfaceList :: "document \<Rightarrow> string \<Rightarrow> error + iface list" where
  "extractInterfaceList m s =
     (case map_of m s of
        None \<Rightarrow> Inr []
      | Some (IList l) \<Rightarrow> Inr l
      | Some _ \<Rightarrow> Inl (ErrInvalidFieldValue s))"

definition extractRegexp :: "ext \<Rightarrow> document \<Rightarrow> string \<Rightarrow> error + string option" where
  "extractRegexp x m s =
     (case map_of m s of
        None \<Rightarrow> Inr None
      | Some (IString v) \<Rightarrow>
          (case regexp_Compile x v of Some e \<Rightarrow> Inl (LibraryError e) | None \<Rightarrow> Inr (Some v))
      | Some _ \<Rightarrow> Inl ErrInvalidType)"

text \<open>The \<^verbatim>\<open>type\<close> keyword: a string, or a Go \<^verbatim>\<open>[]string\<close>; \<open>None\<close> when it is absent.\<close>

fun primitivesFromStrings :: "string list \<Rightarrow> error + PrimitiveType list" where
  "primitivesFromStrings [] = Inr []"
| "primitivesFromStrings (ts # l) =
     (case primitiveFromString ts of
        Inl e \<Rightarrow> Inl e
      | Inr t \<Rightarrow> (case primitivesFromStrings l of Inl e \<Rightarrow> Inl e | Inr r \<Rightarrow> Inr (t # r)))"

definition extractType :: "document \<Rightarrow> error + PrimitiveType list option" where
  "extractType m =
     (case map_of m ''type'' of
        None \<Rightarrow> Inr None
      | Some (IString v) \<Rightarrow>
          (case primitiveFromString v of Inl e \<Rightarrow> Inl e | Inr t \<Rightarrow> Inr (Some [t]))
      | Some (IStrings l) \<Rightarrow>
          (case primitivesFromStrings l of Inl e \<Rightarrow> Inl e | Inr r \<Rightarrow> Inr (Some r))
      | Some _ \<Rightarrow> Inl (ErrInvalidFieldValue ''type''))"

text \<open>
  The extractors of sub-schemas call \<^verbatim>\<open>extract\<close> on a fresh node; they take it as the
  argument \<open>E\<close>. In \<^verbatim>\<open>extractSchemaList\<close> the element of a list is converted to a map by
  a type assertion that panics on anything else.
\<close>

type_synonym extractor = "document \<Rightarrow> addr \<Rightarrow> store \<Rightarrow> unit res"

definition extractSchema :: "extractor \<Rightarrow> document \<Rightarrow> string \<Rightarrow> store \<Rightarrow> addr option res" where
  "extractSchema E m name st =
     (case map_of m name of
        None \<Rightarrow> Ok None st
      | Some (IMap v) \<Rightarrow>
          (case New st of (s, st) \<Rightarrow> and_then (E v s st) (\<lambda>_ st. Ok (Some s) st))
      | Some _ \<Rightarrow> Fail ErrInvalidType st)"

fun extractSchemaList_loop :: "extractor \<Rightarrow> iface list \<Rightarrow> store \<Rightarrow> addr list res" where
  "extractSchemaList_loop E [] st = Ok [] st"
| "extractSchemaList_loop E (d # l) st =
     (case New st of (s, st) \<Rightarrow>
        (case d of
           IMap v \<Rightarrow>
             and_then (E v s st) (\<lambda>_ st.
             and_then (extractSchemaList_loop E l st) (\<lambda>r st. Ok (s # r) st))
         | _ \<Rightarrow> Panic ''interface conversion: interface {} is not map[string]interface {}''))"

definition extractSchemaList :: "extractor \<Rightarrow> document \<Rightarrow> string \<Rightarrow> store \<Rightarrow> addr list res" where
  "extractSchemaList E m name st =
     (case map_of m name of
        None \<Rightarrow> Ok [] st
      | Some (IList l) \<Rightarrow> extractSchemaList_loop E l st
      | Some (IMap v) \<Rightarrow>
          (case New st of (s, st) \<Rightarrow> and_then (E v s st) (\<lambda>_ st. Ok [s] st))
      | Some _ \<Rightarrow> Fail (ErrInvalidFieldValue name) st)"

fun extractSchemaMap_loop ::
  "extractor \<Rightarrow> string \<Rightarrow> document \<Rightarrow> store \<Rightarrow> (string \<times> addr) list res" where
  "extractSchemaMap_loop E name [] st = Ok [] st"
| "extractSchemaMap_loop E name ((k, d) # kvs) st =
     (case d of
        IMap v \<Rightarrow>
          (case New st of (s, st) \<Rightarrow>
             and_then (E v s st) (\<lambda>_ st.
             and_then (extractSchemaMap_loop E name kvs st) (\<lambda>r st. Ok ((k, s) # r) st)))
      | _ \<Rightarrow> Fail (ErrInvalidFieldValue name) st)"

definition extractSchemaMap ::
  "extractor \<Rightarrow> document \<Rightarrow> string \<Rightarrow> store \<Rightarrow> (string \<times> addr) list res" where
  "extractSchemaMap E m name st =
     (case map_of m name of
        None \<Rightarrow> Ok [] st
      | Some (IMap v) \<Rightarrow> extractSchemaMap_loop E name v st
      | Some _ \<Rightarrow> Fail (ErrInvalidFieldValue name) st)"

fun extractRegexpToSchemaMap_loop ::
  "ext \<Rightarrow> extractor \<Rightarrow> string \<Rightarrow> document \<Rightarrow> store \<Rightarrow> (string \<times> addr) list res" where
  "extractRegexpToSchemaMap_loop x E name [] st = Ok [] st"
| "extractRegexpToSchemaMap_loop x E name ((k, d) # kvs) st =
     (case d of
        IMap v \<Rightarrow>
          (case New st of (s, st) \<Rightarrow>
             and_then (E v s st) (\<lambda>_ st.
               case regexp_Compile x k of
                 Some e \<Rightarrow> Fail (LibraryError e) st
               | None \<Rightarrow>
                   and_then (extractRegexpToSchemaMap_loop x E name kvs st)
                     (\<lambda>r st. Ok ((k, s) # r) st)))
      | _ \<Rightarrow> Fail (ErrInvalidFieldValue name) st)"

definition extractRegexpToSchemaMap ::
  "ext \<Rightarrow> extractor \<Rightarrow> document \<Rightarrow> string \<Rightarrow> store \<Rightarrow> (string \<times> addr) list res" where
  "extractRegexpToSchemaMap x E m name st =
     (case map_of m name of
        None \<Rightarrow> Ok [] st
      | Some (IMap v) \<Rightarrow> extractRegexpToSchemaMap_loop x E name v st
      | Some _ \<Rightarrow> Fail (ErrInvalidFieldValue name) st)"

text \<open>
  The statements of \<^verbatim>\<open>extract\<close>. \<open>assign\<close> is
  \<^verbatim>\<open>if s.F, err = extractX(m, k); err != nil { return err }\<close>; \<open>assign_new\<close> is the same for
  an extractor that allocates nodes; \<open>in_place\<close> is
  \<^verbatim>\<open>if err = extractX(&s.F, m, k); err != nil { return err }\<close>; and \<open>result_dropped\<close> is
  \<^verbatim>\<open>if extractX(&s.F, m, k); err != nil { return err }\<close>, where the call's result is
  dropped and \<^verbatim>\<open>err\<close> is the nil left by the statement before.
\<close>

definition assign ::
  "(error + 'a) \<Rightarrow> ('a \<Rightarrow> Schema \<Rightarrow> Schema) \<Rightarrow> addr \<Rightarrow> store \<Rightarrow> unit res" where
  "assign r f s st =
     (case r of Inl e \<Rightarrow> Fail e st | Inr v \<Rightarrow> Ok () (update_node s (f v) st))"

definition assign_new ::
  "(store \<Rightarrow> 'a res) \<Rightarrow> ('a \<Rightarrow> Schema \<Rightarrow> Schema) \<Rightarrow> addr \<Rightarrow> store \<Rightarrow> unit res" where
  "assign_new r f s st = and_then (r st) (\<lambda>v st. Ok () (update_node s (f v) st))"

definition in_place ::
  "(Schema \<Rightarrow> 'a) \<Rightarrow> ('a \<Rightarrow> Schema \<Rightarrow> Schema) \<Rightarrow> ('a \<Rightarrow> error option \<times> 'a)
     \<Rightarrow> addr \<Rightarrow> store \<Rightarrow> unit res" where
  "in_place rd wr f s st =
     and_then (deref s st) (\<lambda>nd st.
       case f (rd nd) of
         (None, v) \<Rightarrow> Ok () (update_node s (wr v) st)
       | (Some e, v) \<Rightarrow> Fail e (update_node s (wr v) st))"

definition result_dropped :: "(store \<Rightarrow> unit res) \<Rightarrow> store \<Rightarrow> unit res" where
  "result_dropped step st = (case step st of Fail e st \<Rightarrow> Ok () st | r \<Rightarrow> r)"

fun statements :: "(store \<Rightarrow> unit res) list \<Rightarrow> store \<Rightarrow> unit res" where
  "statements [] st = Ok () st"
| "statements (f # fs) st = and_then (f st) (\<lambda>_ st. statements fs st)"

text \<open>
  The \<^verbatim>\<open>additionalProperties\<close> keyword: absent or \<^verbatim>\<open>true\<close> gives the struct with a nil
  schema, \<^verbatim>\<open>false\<close> leaves the nil pointer, and anything else is extracted as a schema.
\<close>

definition extractAdditionalProperties ::
  "extractor \<Rightarrow> document \<Rightarrow> addr \<Rightarrow> store \<Rightarrow> unit res" where
  "extractAdditionalProperties E m s st =
     (case map_of m ''additionalProperties'' of
        None \<Rightarrow> Ok () (update_node s (\<lambda>nd. nd\<lparr>AdditionalProperties := Some None\<rparr>) st)
      | Some _ \<Rightarrow>
          (case extractBool Bool0 m ''additionalProperties'' True of
             (None, b) \<Rightarrow>
               (if Bool b
                then Ok () (update_node s (\<lambda>nd. nd\<lparr>AdditionalProperties := Some None\<rparr>) st)
                else Ok () st)
           | (Some _, b) \<Rightarrow>
               and_then (extractSchema E m ''additionalProperties'' st) (\<lambda>apSchema st.
                 Ok () (update_node s (\<lambda>nd. nd\<lparr>AdditionalProperties := Some apSchema\<rparr>) st))))"

text \<open>
  \<^verbatim>\<open>extract\<close>: its statements in the order of the code. The keys read for the two
  exclusive flags are \<^verbatim>\<open>exclusiveminimum\<close> and \<^verbatim>\<open>exclusivemaximum\<close>; \<^verbatim>\<open>properties\<close> is
  extracted twice; the last statement is \<^verbatim>\<open>s.applyParentSchema()\<close>. Where a statement
  fails the Go code has also stored the zero value it got back in the field; the model
  leaves the field, which for a node that comes from \<^verbatim>\<open>New\<close> is the same.
\<close>

definition extract_statements ::
  "ext \<Rightarrow> nat \<Rightarrow> extractor \<Rightarrow> document \<Rightarrow> addr \<Rightarrow> (store \<Rightarrow> unit res) list" where
  "extract_statements x n E m s =
     [assign (extractString m ''id'') (\<lambda>v nd. nd\<lparr>id' := v\<rparr>) s,
      assign (extractString m ''title'') (\<lambda>v nd. nd\<lparr>Title := v\<rparr>) s,
      assign (extractString m ''description'') (\<lambda>v nd. nd\<lparr>Description := v\<rparr>) s,
      assign (extractStringList m ''required'') (\<lambda>v nd. nd\<lparr>Required := v\<rparr>) s,
      assign (extractJSPointer m ''$schema'') (\<lambda>v nd. nd\<lparr>SchemaRef := v\<rparr>) s,
      assign (extractJSPointer m ''$ref'') (\<lambda>v nd. nd\<lparr>Reference := v\<rparr>) s,
      assign (extractFormat m ''format'') (\<lambda>v nd. nd\<lparr>Format := v\<rparr>) s,
      assign (extractInterfaceList m ''enum'') (\<lambda>v nd. nd\<lparr>Enum' := v\<rparr>) s,
      assign (extractInterface m ''default'') (\<lambda>v nd. nd\<lparr>Default' := v\<rparr>) s,
      assign (extractType m) (\<lambda>v nd. case v of None \<Rightarrow> nd | Some ts \<Rightarrow> nd\<lparr>Type := ts\<rparr>) s,
      assign_new (extractSchemaMap E m ''definitions'') (\<lambda>v nd. nd\<lparr>Definitions := v\<rparr>) s,
      assign_new (extractSchemaList E m ''items'') (\<lambda>v nd. nd\<lparr>Items := v\<rparr>) s,
      assign (extractRegexp x m ''pattern'') (\<lambda>v nd. nd\<lparr>Pattern := v\<rparr>) s,
      result_dropped
        (in_place MinLength (\<lambda>v nd. nd\<lparr>MinLength := v\<rparr>) (\<lambda>i. extractInt i m ''minLength'') s),
      result_dropped
        (in_place MaxLength (\<lambda>v nd. nd\<lparr>MaxLength := v\<rparr>) (\<lambda>i. extractInt i m ''maxLength'') s),
      result_dropped
        (in_place minItems (\<lambda>v nd. nd\<lparr>minItems := v\<rparr>) (\<lambda>i. extractInt i m ''minItems'') s),
      result_dropped
        (in_place maxItems (\<lambda>v nd. nd\<lparr>maxItems := v\<rparr>) (\<lambda>i. extractInt i m ''maxItems'') s),
      in_place UniqueItems (\<lambda>v nd. nd\<lparr>UniqueItems := v\<rparr>)
        (\<lambda>b. extractBool b m ''uniqueItems'' False) s,
      in_place MaxProperties (\<lambda>v nd. nd\<lparr>MaxProperties := v\<rparr>)
        (\<lambda>i. extractInt i m ''maxProperties'') s,
      in_place MinProperties (\<lambda>v nd. nd\<lparr>MinProperties := v\<rparr>)
        (\<lambda>i. extractInt i m ''minProperties'') s,
      in_place Minimum (\<lambda>v nd. nd\<lparr>Minimum := v\<rparr>) (\<lambda>f. extractNumber f m ''minimum'') s,
      in_place ExclusiveMinimum (\<lambda>v nd. nd\<lparr>ExclusiveMinimum := v\<rparr>)
        (\<lambda>b. extractBool b m ''exclusiveminimum'' False) s,
      in_place Maximum (\<lambda>v nd. nd\<lparr>Maximum := v\<rparr>) (\<lambda>f. extractNumber f m ''maximum'') s,
      in_place ExclusiveMaximum (\<lambda>v nd. nd\<lparr>ExclusiveMaximum := v\<rparr>)
        (\<lambda>b. extractBool b m ''exclusivemaximum'' False) s,
      in_place MultipleOf (\<lambda>v nd. nd\<lparr>MultipleOf := v\<rparr>)
        (\<lambda>f. extractNumber f m ''multipleOf'') s,
      assign_new (extractSchemaMap E m ''properties'') (\<lambda>v nd. nd\<lparr>properties := v\<rparr>) s,
      extractAdditionalProperties E m s,
      assign_new (extractRegexpToSchemaMap x E m ''patternProperties'')
        (\<lambda>v nd. nd\<lparr>PatternProperties := v\<rparr>) s,
      assign_new (extractSchemaMap E m ''properties'') (\<lambda>v nd. nd\<lparr>properties := v\<rparr>) s,
      assign_new (extractSchemaList E m ''allOf'') (\<lambda>v nd. nd\<lparr>AllOf := v\<rparr>) s,
      assign_new (extractSchemaList E m ''anyOf'') (\<lambda>v nd. nd\<lparr>AnyOf := v\<rparr>) s,
      assign_new (extractSchemaList E m ''oneOf'') (\<lambda>v nd. nd\<lparr>OneOf := v\<rparr>) s,
      assign_new (extractSchema E m ''not'') (\<lambda>v nd. nd\<lparr>Not' := v\<rparr>) s,
      applyParentSchema n s]"

text \<open>
  The method \<^verbatim>\<open>extract\<close> of \<^verbatim>\<open>Schema\<close> (\<open>extract\<close> is a keyword of Isabelle). Its first
  argument bounds the nesting of the document and the depth of
  the tree that \<^verbatim>\<open>applyParentSchema\<close> walks.
\<close>

fun Schema_extract :: "ext \<Rightarrow> nat \<Rightarrow> document \<Rightarrow> addr \<Rightarrow> store \<Rightarrow> unit res" where
  "Schema_extract x 0 m s st = OutOfFuel"
| "Schema_extract x (Suc n) m s st =
     statements (extract_statements x (Suc n) (Schema_extract x n) m s) st"

text \<open>
  \<^verbatim>\<open>Read\<close>, from the decoded document on: the JSON decoder calls \<^verbatim>\<open>UnmarshalJSON\<close>, which
  calls \<^verbatim>\<open>extract\<close> on the generic map.
\<close>

definition empty_store :: store where
  "empty_store = \<lparr>heap = (\<lambda>_. None), next_addr = 0\<rparr>"

definition Read :: "ext \<Rightarrow> nat \<Rightarrow> document \<Rightarrow> store \<Rightarrow> addr res" where
  "Read x n m st =
     (case New st of (s, st) \<Rightarrow>
        and_then (Schema_extract x n m s st) (\<lambda>_ st.
        and_then (applyParentSchema n s st) (\<lambda>_ st. Ok s st)))"

section \<open>From schema nodes to a generic document\<close>

text \<open>
  \<^verbatim>\<open>MarshalJSON\<close> fills a map with Go values and hands it to \<^verbatim>\<open>json.Marshal\<close>. \<open>gval\<close> is
  what the map holds; \<open>json_Marshal\<close> gives the generic document that decoding the
  marshalled bytes yields: a number for an \<^verbatim>\<open>int\<close>, a list for a slice, the name of a
  primitive type, and for a \<^verbatim>\<open>*Schema\<close> the document of its own \<^verbatim>\<open>MarshalJSON\<close>, taken
  as the argument \<open>M\<close>.
\<close>

datatype gval =
    GString string
  | GStrings "string list"
  | GBool bool
  | GInt int
  | GFloat real
  | GIface iface
  | GIfaces "iface list"
  | GType PrimitiveType
  | GTypes "PrimitiveType list"
  | GSchema addr
  | GSchemas "addr list"
  | GSchemaMap "(string \<times> addr) list"

type_synonym marshaller = "addr \<Rightarrow> store \<Rightarrow> iface res"

fun marshal_schemas :: "marshaller \<Rightarrow> addr list \<Rightarrow> store \<Rightarrow> iface list res" where
  "marshal_schemas M [] st = Ok [] st"
| "marshal_schemas M (s # l) st =
     and_then (M s st) (\<lambda>d st.
     and_then (marshal_schemas M l st) (\<lambda>r st. Ok (d # r) st))"

fun marshal_schema_map ::
  "marshaller \<Rightarrow> (string \<times> addr) list \<Rightarrow> store \<Rightarrow> (string \<times> iface) list res" where
  "marshal_schema_map M [] st = Ok [] st"
| "marshal_schema_map M ((k, s) # l) st =
     and_then (M s st) (\<lambda>d st.
     and_then (marshal_schema_map M l st) (\<lambda>r st. Ok ((k, d) # r) st))"

fun json_Marshal :: "marshaller \<Rightarrow> gval \<Rightarrow> store \<Rightarrow> iface res" where
  "json_Marshal M (GString s) st = Ok (IString s) st"
| "json_Marshal M (GStrings l) st = Ok (IList (map IString l)) st"
| "json_Marshal M (GBool b) st = Ok (IBool b) st"
| "json_Marshal M (GInt i) st = Ok (IFloat (of_int i)) st"
| "json_Marshal M (GFloat f) st = Ok (IFloat f) st"
| "json_Marshal M (GIface v) st = Ok v st"
| "json_Marshal M (GIfaces l) st = Ok (IList l) st"
| "json_Marshal M (GType t) st = Ok (IString (PrimitiveType_String t)) st"
| "json_Marshal M (GTypes l) st = Ok (IList (map (\<lambda>t. IString (PrimitiveType_String t)) l)) st"
| "json_Marshal M (GSchema s) st = M s st"
| "json_Marshal M (GSchemas l) st = and_then (marshal_schemas M l st) (\<lambda>r st. Ok (IList r) st)"
| "json_Marshal M (GSchemaMap l) st =
     and_then (marshal_schema_map M l st) (\<lambda>r st. Ok (IMap r) st)"

fun json_Marshal_map ::
  "marshaller \<Rightarrow> (string \<times> gval) list \<Rightarrow> store \<Rightarrow> (string \<times> iface) list res" where
  "json_Marshal_map M [] st = Ok [] st"
| "json_Marshal_map M ((k, v) # m) st =
     and_then (json_Marshal M v st) (\<lambda>d st.
     and_then (json_Marshal_map M m st) (\<lambda>r st. Ok ((k, d) # r) st))"

text \<open>The \<^verbatim>\<open>place\<close> family; each returns the map it was given, with or without the entry.\<close>

type_synonym gmap = "(string \<times> gval) list"

definition place :: "string \<Rightarrow> gval \<Rightarrow> gmap \<Rightarrow> gmap" where
  "place name v m = map_put name v m"

definition placeString :: "string \<Rightarrow> string \<Rightarrow> gmap \<Rightarrow> gmap" where
  "placeString name s m = (if s \<noteq> [] then place name (GString s) m else m)"

definition placeList :: "string \<Rightarrow> iface list \<Rightarrow> gmap \<Rightarrow> gmap" where
  "placeList name l m = (if length l > 0 then place name (GIfaces l) m else m)"

definition placeSchemaList :: "string \<Rightarrow> addr list \<Rightarrow> gmap \<Rightarrow> gmap" where
  "placeSchemaList name l m = (if length l > 0 then place name (GSchemas l) m else m)"

definition placeSchemaMap :: "string \<Rightarrow> (string \<times> addr) list \<Rightarrow> gmap \<Rightarrow> gmap" where
  "placeSchemaMap name l m = (if length l > 0 then place name (GSchemaMap l) m else m)"

definition placeStringList :: "string \<Rightarrow> string list \<Rightarrow> gmap \<Rightarrow> gmap" where
  "placeStringList name l m = (if length l > 0 then place name (GStrings l) m else m)"

definition placeBool :: "string \<Rightarrow> BoolT \<Rightarrow> gmap \<Rightarrow> gmap" where
  "placeBool name v m = place name (GBool (Bool v)) m"

definition placeNumber :: "string \<Rightarrow> Number \<Rightarrow> gmap \<Rightarrow> gmap" where
  "placeNumber name n m = (if \<not> Initialized n then m else place name (GFloat (Val n)) m)"

definition placeInteger :: "string \<Rightarrow> Integer \<Rightarrow> gmap \<Rightarrow> gmap" where
  "placeInteger name n m = (if \<not> Initialized n then m else place name (GInt (Val n)) m)"

text \<open>
  The statements of \<^verbatim>\<open>MarshalJSON\<close> before the call of \<^verbatim>\<open>json.Marshal\<close>, in the order of
  the code, each a step on the map. The switch on the length of \<^verbatim>\<open>Items\<close> has the cases
  0, 1 and 2 only.
\<close>

definition MarshalJSON_places :: "Schema \<Rightarrow> (gmap \<Rightarrow> gmap) list" where
  "MarshalJSON_places s =
     [placeString ''id'' (id' s),
      placeString ''title'' (Title s),
      placeString ''description'' (Description s),
      placeString ''$schema'' (SchemaRef s),
      placeString ''$ref'' (Reference s),
      placeStringList ''required'' (Required s),
      placeList ''enum'' (Enum' s),
      (\<lambda>m. case Type s of
             [] \<Rightarrow> m
           | [t] \<Rightarrow> place ''type'' (GType t) m
           | _ \<Rightarrow> place ''type'' (GTypes (Type s)) m),
      (\<lambda>m. if AllowAdditionalItems s then place ''additionalItems'' (GBool True) m else m),
      (\<lambda>m. case Pattern s of None \<Rightarrow> m | Some rx \<Rightarrow> placeString ''pattern'' rx m),
      placeInteger ''maxLength'' (MaxLength s),
      placeInteger ''minLength'' (MinLength s),
      placeInteger ''maxItems'' (maxItems s),
      placeInteger ''minItems'' (minItems s),
      placeInteger ''maxProperties'' (MaxProperties s),
      placeInteger ''minProperties'' (MinProperties s),
      (\<lambda>m. if Initialized (UniqueItems s) then placeBool ''uniqueItems'' (UniqueItems s) m
            else m),
      placeSchemaMap ''definitions'' (Definitions s),
      (\<lambda>m. case Items s of
             [] \<Rightarrow> m
           | [i] \<Rightarrow> place ''items'' (GSchema i) m
           | [i, j] \<Rightarrow> place ''items'' (GSchemas (Items s)) m
           | _ \<Rightarrow> m),
      placeSchemaMap ''properties'' (properties s),
      (\<lambda>m. if length (PatternProperties s) > 0
            then placeSchemaMap ''patternProperties'' (PatternProperties s) m else m),
      placeSchemaList ''allOf'' (AllOf s),
      placeSchemaList ''anyOf'' (AnyOf s),
      placeSchemaList ''oneOf'' (OneOf s),
      (\<lambda>m. if Default' s \<noteq> INil then place ''default'' (GIface (Default' s)) m else m),
      placeString ''format'' (Format s),
      placeNumber ''minimum'' (Minimum s),
      (\<lambda>m. if Initialized (ExclusiveMinimum s)
            then placeBool ''exclusiveMinimum'' (ExclusiveMinimum s) m else m),
      placeNumber ''maximum'' (Maximum s),
      (\<lambda>m. if Initialized (ExclusiveMaximum s)
            then placeBool ''exclusiveMaximum'' (ExclusiveMaximum s) m else m),
      (\<lambda>m. case AdditionalProperties s of
             Some ap \<Rightarrow>
               (case ap of None \<Rightarrow> m | Some a \<Rightarrow> place ''additionalProperties'' (GSchema a) m)
           | None \<Rightarrow>
               placeBool ''additionalProperties''
                 \<lparr>Val = False, Initialized = True, Default = False\<rparr> m),
      (\<lambda>m. if Val (MultipleOf s) \<noteq> 0 then placeNumber ''multipleOf'' (MultipleOf s) m else m),
      (\<lambda>m. case Not' s of None \<Rightarrow> m | Some v \<Rightarrow> place ''not'' (GSchema v) m)]"

text \<open>
  \<^verbatim>\<open>MarshalJSON\<close>. The first argument bounds the depth of the tree, which nothing in the
  types keeps from being cyclic.
\<close>

fun MarshalJSON :: "nat \<Rightarrow> addr \<Rightarrow> store \<Rightarrow> iface res" where
  "MarshalJSON 0 s st = OutOfFuel"
| "MarshalJSON (Suc n) s st =
     and_then (deref s st) (\<lambda>nd st.
     and_then (json_Marshal_map (MarshalJSON n) (fold (\<lambda>f m. f m) (MarshalJSON_places nd) []) st)
       (\<lambda>r st. Ok (IMap r) st))"

text \<open>
  The length in characters that the specification speaks of: the number of code points of
  a UTF-8 string, which is the number of its bytes that are not continuation bytes
  (\<^verbatim>\<open>10xxxxxx\<close>). The code never computes it; it is defined to be compared with
  \<^verbatim>\<open>rv.Len()\<close>.
\<close>

definition code_points :: "string \<Rightarrow> nat" where
  "code_points s = length (filter (\<lambda>c. \<not> (CHR 0x80 \<le> c \<and> c \<le> CHR 0xBF)) s)"

section \<open>Properties of the code\<close>

lemma and_then_simps [simp]:
  "and_then (Ok a st) f = f a st"
  "and_then (Fail e st) f = Fail e st"
  "and_then (Panic m) f = Panic m"
  "and_then OutOfFuel f = OutOfFuel"
  by (simp_all add: and_then_def)

text \<open>The definitions that an evaluation of \<open>Read\<close> and of \<open>validate\<close> unfolds.\<close>

lemmas extract_defs =
  Read_def New_def empty_store_def extract_statements_def assign_def assign_new_def in_place_def
  result_dropped_def extractString_def extractStringList_def extractJSPointer_def
  extractFormat_def extractInterfaceList_def extractInterface_def extractType_def
  extractSchemaMap_def extractSchemaList_def extractRegexp_def extractInt_def extractBool_def
  extractNumber_def extractAdditionalProperties_def extractRegexpToSchemaMap_def
  extractSchema_def update_node_def deref_def linked_components_def setParent_def Bool_def
  Schema0_def Bool0_def Number0_def Integer0_def primitiveFromString_def

lemmas validate_defs =
  Validate_def resolveCurrentSchemaReference_def validateCombinators_def validateKind_def
  validateNumeric_def matchType_def validateNot_def validateNumber_def validateMinimum_def
  validateMaximum_def validateMultipleOf_def

subsection \<open>Type matching\<close>

lemma matchType_loop_None_iff:
  "matchType_loop t list = None \<longleftrightarrow> list_all (\<lambda>tp. tp = t) list"
  by (induction list) auto

text \<open>
  Claim C1 says that \<^verbatim>\<open>matchType\<close> accepts a kind that equals at least one entry of a
  non-empty type list, so that an integer and a string both pass \<^verbatim>\<open>type: [integer, string]\<close>.
  The loop of the code returns \<^verbatim>\<open>ErrInvalidType\<close> at the first entry that differs from the
  kind: with the list \<^verbatim>\<open>[integer, string]\<close> both the integer kind and the string kind are
  rejected.
\<close>

theorem matchType_rejects_integer_or_string:
  "matchType IntegerType [IntegerType, StringType] = Some ErrInvalidType
   \<and> matchType StringType [IntegerType, StringType] = Some ErrInvalidType"
  by (simp add: matchType_def)

subsection \<open>Numbers\<close>

text \<open>
  Claim C2 says that a value equal to an inclusive minimum passes and a value equal to an
  exclusive minimum fails, and symmetrically for the maximum. The code compares the other
  way round: with the exclusive flag unset the value 5 fails \<^verbatim>\<open>minimum: 5\<close> and
  \<^verbatim>\<open>maximum: 5\<close>, and with the flag set it passes both.
\<close>

theorem validateNumber_bounds_swapped:
  "validateNumber (RFloat KFloat64 5) (Schema0\<lparr>Minimum := \<lparr>Val = 5, Initialized = True\<rparr>\<rparr>)
     = Some (ErrMinimumValidationFailed 5 5 False)
   \<and> validateNumber (RFloat KFloat64 5)
       (Schema0\<lparr>Minimum := \<lparr>Val = 5, Initialized = True\<rparr>,
                ExclusiveMinimum := \<lparr>Val = True, Initialized = True, Default = False\<rparr>\<rparr>)
     = None
   \<and> validateNumber (RFloat KFloat64 5) (Schema0\<lparr>Maximum := \<lparr>Val = 5, Initialized = True\<rparr>\<rparr>)
     = Some (ErrMaximumValidationFailed 5 5 False)
   \<and> validateNumber (RFloat KFloat64 5)
       (Schema0\<lparr>Maximum := \<lparr>Val = 5, Initialized = True\<rparr>,
                ExclusiveMaximum := \<lparr>Val = True, Initialized = True, Default = False\<rparr>\<rparr>)
     = None"
  by (simp add: validateNumber_def validateMinimum_def validateMaximum_def
      validateMultipleOf_def Schema0_def Bool_def Bool0_def Number0_def)

subsection \<open>Strings\<close>

lemma validateFormat_not_length:
  "validateFormat x s def \<noteq> Some (ErrMinLengthValidationFailed a b)"
  "validateFormat x s def \<noteq> Some (ErrMaxLengthValidationFailed a b)"
  by (auto simp: validateFormat_def split: sum.splits)

text \<open>
  Claim C7, as amended: the length that \<^verbatim>\<open>validateString\<close> compares with \<^verbatim>\<open>minLength\<close> and
  \<^verbatim>\<open>maxLength\<close> is the number of bytes of the string. It reports
  \<^verbatim>\<open>MinLengthValidationFailed\<close> exactly when \<^verbatim>\<open>minLength\<close> is set and the byte length is
  below it, and \<^verbatim>\<open>MaxLengthValidationFailed\<close> exactly when the minimum check passes,
  \<^verbatim>\<open>maxLength\<close> is set and the byte length is above it; the error carries the byte length
  and the bound.
\<close>

theorem validateString_compares_byte_length:
  "(validateString x s def = Some (ErrMinLengthValidationFailed l b))
     = (Initialized (MinLength def) \<and> int (length s) < Val (MinLength def)
        \<and> l = int (length s) \<and> b = Val (MinLength def))
   \<and>
   (validateString x s def = Some (ErrMaxLengthValidationFailed l b))
     = (\<not> (Initialized (MinLength def) \<and> int (length s) < Val (MinLength def))
        \<and> Initialized (MaxLength def) \<and> int (length s) > Val (MaxLength def)
        \<and> l = int (length s) \<and> b = Val (MaxLength def))"
  by (auto simp: validateString_def validateFormat_not_length)

text \<open>
  Claim C7 as stated fails: the string of the one code point U+00E9, two bytes in UTF-8,
  is rejected by \<^verbatim>\<open>maxLength: 1\<close> with the observed length 2.
\<close>

theorem validateString_code_points_counterexample:
  "\<forall>x. validateString x [CHR 0xC3, CHR 0xA9]
          (Schema0\<lparr>MaxLength := \<lparr>Val = 1, Initialized = True\<rparr>\<rparr>)
        = Some (ErrMaxLengthValidationFailed 2 1)
      \<and> code_points [CHR 0xC3, CHR 0xA9] = 1"
  by (simp add: validateString_def Schema0_def Integer0_def code_points_def)

subsection \<open>Validation\<close>

text \<open>
  Claim C3 says that \<^verbatim>\<open>Validate\<close> never panics, and that the numeric branch is safe for a
  value that is not a float. The schema read from the empty document \<^verbatim>\<open>{}\<close> has an empty
  type list, so \<^verbatim>\<open>matchType(IntegerType, ...)\<close> succeeds and the code calls
  \<^verbatim>\<open>rv.Float()\<close> on the value: validating the Go \<^verbatim>\<open>int\<close> 3 panics.
\<close>

theorem Validate_int_panics:
  "\<exists>st. Read x 1 [] empty_store = Ok 0 st
      \<and> Validate x 1 (RInt KInt 3) 0 st
          = Panic ''reflect: call of reflect.Value.Float on non-float Value''"
  by (simp add: extract_defs validate_defs)

text \<open>
  Claim C4 as stated fails. The schema \<^verbatim>\<open>{"not": {"type": "string"}, "allOf": [{"type":
  "string"}]}\<close> is read into the nodes 0 (the root), 1 (the member of \<^verbatim>\<open>allOf\<close>) and 2 (the
  schema of \<^verbatim>\<open>not\<close>). The float64 1 is rejected by the member of \<^verbatim>\<open>allOf\<close>, and still the
  root accepts it: \<^verbatim>\<open>not\<close> is present and passes, and \<^verbatim>\<open>allOf\<close> is never evaluated.
\<close>

theorem validate_skips_allOf_counterexample:
  "\<forall>x. \<exists>st. Read x 2 [(''not'', IMap [(''type'', IString ''string'')]),
                       (''allOf'', IList [IMap [(''type'', IString ''string'')]])] empty_store
              = Ok 0 st
        \<and> map_option AllOf (heap st 0) = Some [1]
        \<and> map_option Not' (heap st 0) = Some (Some 2)
        \<and> validate x 1 (RFloat KFloat64 1) 1 st = Fail ErrInvalidType st
        \<and> validate x 2 (RFloat KFloat64 1) 0 st = Ok () st"
  by (simp add: numeral_2_eq_2 extract_defs validate_defs)

subsection \<open>Resolution of ids\<close>

text \<open>
  Claim C6 says that on a miss \<^verbatim>\<open>ResolveID\<close> searches every node of the tree. The code asks
  \<^verbatim>\<open>findSchemaByID\<close> of the root, which compares the root's own id and gives up. In the
  tree read from \<^verbatim>\<open>{"id": "root", "definitions": {"a": {"id": "child"}}}\<close> the node 1 has
  the id \<^verbatim>\<open>child\<close> and the root as its parent, and the id is not found, from either node.
\<close>

theorem ResolveID_misses_descendant:
  "\<exists>st. Read x 2 [(''id'', IString ''root''),
                  (''definitions'', IMap [(''a'', IMap [(''id'', IString ''child'')])])]
           empty_store = Ok 0 st
      \<and> map_option id' (heap st 1) = Some ''child''
      \<and> map_option parent (heap st 1) = Some (Some 0)
      \<and> ResolveID 2 1 ''child'' st = Fail ErrSchemaNotFound st
      \<and> ResolveID 2 0 ''child'' st = Fail ErrSchemaNotFound st"
  by (simp add: numeral_2_eq_2 extract_defs ResolveID_def findSchemaByID_def)

subsection \<open>Extraction\<close>

text \<open>
  Claim C9 says that a keyword whose value has the wrong JSON type makes \<^verbatim>\<open>extract\<close> fail
  with \<^verbatim>\<open>InvalidFieldValue\<close>, in particular for \<^verbatim>\<open>minLength\<close>, \<^verbatim>\<open>maxLength\<close>, \<^verbatim>\<open>minItems\<close>
  and \<^verbatim>\<open>maxItems\<close>. For these four the code drops the result of \<^verbatim>\<open>extractInt\<close>: a document
  that gives each of them a value that is not a number is read without an error, and the
  four keywords stay unset. The sibling \<^verbatim>\<open>maxProperties\<close> does fail.
\<close>

theorem extract_ignores_bad_lengths:
  "(\<exists>st. Read x 1 [(''minLength'', IString ''abc''), (''maxLength'', IBool True),
                   (''minItems'', INil), (''maxItems'', IList [])] empty_store = Ok 0 st
       \<and> map_option MinLength (heap st 0) = Some Integer0
       \<and> map_option MaxLength (heap st 0) = Some Integer0
       \<and> map_option minItems (heap st 0) = Some Integer0
       \<and> map_option maxItems (heap st 0) = Some Integer0)
   \<and> (\<exists>st. Read x 1 [(''maxProperties'', IString ''abc'')] empty_store
             = Fail (ErrInvalidFieldValue ''maxProperties'') st)"
  by (simp add: extract_defs)

subsection \<open>Parent links\<close>

text \<open>
  Claim C10 says that after a document is read every sub-schema, also one under
  \<^verbatim>\<open>patternProperties\<close> or a schema-valued \<^verbatim>\<open>additionalProperties\<close>, is linked to its
  parent, so that the root is the only node without one. \<^verbatim>\<open>applyParentSchema\<close> visits
  neither of the two: in the trees read from \<^verbatim>\<open>{"additionalProperties": {}}\<close> and from
  \<^verbatim>\<open>{"patternProperties": {"^a": {}}}\<close> (with a regexp library that compiles the
  pattern) the sub-schema is the node 1, it has no parent, and its root is itself.
\<close>

theorem applyParentSchema_misses_sub_schemas:
  "(\<exists>st. Read x 2 [(''additionalProperties'', IMap [])] empty_store = Ok 0 st
       \<and> map_option AdditionalProperties (heap st 0) = Some (Some (Some 1))
       \<and> map_option parent (heap st 0) = Some None
       \<and> map_option parent (heap st 1) = Some None
       \<and> Root 2 1 st = Ok 1 st)
   \<and> (\<exists>st. Read (x\<lparr>regexp_Compile := \<lambda>_. None\<rparr>) 2
               [(''patternProperties'', IMap [(''^a'', IMap [])])] empty_store = Ok 0 st
       \<and> map_option PatternProperties (heap st 0) = Some [(''^a'', 1)]
       \<and> map_option parent (heap st 0) = Some None
       \<and> map_option parent (heap st 1) = Some None
       \<and> Root 2 1 st = Ok 1 st)"
  by (simp add: numeral_2_eq_2 extract_defs)

end
